theory Spec2Isabelle
  imports Complex_Main "HOL-Library.Sublist" "HOL-Library.AList"
    "HOL-Library.Char_ord" "HOL-Library.List_Lexorder"
begin

section \<open>Job records and weighted progress (batch.py)\<close>

text \<open>
  \<^verbatim>\<open>TaskStatus\<close> and \<^verbatim>\<open>BatchStatus\<close> are the two enums of batch.py. Both have a
  member COMPLETED, FAILED and CANCELLED; the batch-level ones carry the prefix
  \<open>BATCH_\<close> here.
\<close>

datatype TaskStatus =
  PENDING | DOWNLOADING | CONVERTING | TRANSCRIBING | TRANSLATING | EXPORTING
  | COMPLETED | FAILED | CANCELLED | SKIPPED

datatype BatchStatus =
  IDLE | RUNNING | PAUSED | BATCH_COMPLETED | BATCH_CANCELLED | BATCH_FAILED

text \<open>
  The transcription result is a Python dict (\<^verbatim>\<open>Dict[str, Any]\<close>); it is an association
  list from field names to rendered values. Python's truth test on a dict is
  non-emptiness. Floats are exact rationals.
\<close>

type_synonym pydict = "(string \<times> string) list"

record TaskProgress =
  url :: string
  status :: TaskStatus
  progress :: rat
  download_progress :: rat
  conversion_progress :: rat
  transcription_progress :: rat
  translation_progress :: rat
  export_progress :: rat
  result :: "pydict option"
  error :: "string option"
  temp_files :: "string list"

text \<open>
  The dataclass defaults of \<^verbatim>\<open>TaskProgress(url=url)\<close>. The two time stamps
  (\<^verbatim>\<open>start_time\<close>, \<^verbatim>\<open>end_time\<close>) are wall-clock readings that no decision of the
  pipeline depends on; they are left out.
\<close>

definition new_task :: "string \<Rightarrow> TaskProgress" where
  "new_task u = \<lparr> url = u, status = PENDING, progress = 0, download_progress = 0,
     conversion_progress = 0, transcription_progress = 0, translation_progress = 0,
     export_progress = 0, result = None, error = None, temp_files = [] \<rparr>"

text \<open>\<^verbatim>\<open>TaskProgress.update_progress\<close>, branch by branch (batch.py lines 60-76).\<close>

definition update_progress :: "TaskProgress \<Rightarrow> TaskProgress" where
  "update_progress t =
     (if status t = DOWNLOADING then t\<lparr>progress := download_progress t * (2/10)\<rparr>
      else if status t = CONVERTING then t\<lparr>progress := 2/10 + conversion_progress t * (1/10)\<rparr>
      else if status t = TRANSCRIBING then t\<lparr>progress := 3/10 + transcription_progress t * (4/10)\<rparr>
      else if status t = TRANSLATING then t\<lparr>progress := 7/10 + translation_progress t * (2/10)\<rparr>
      else if status t = EXPORTING then t\<lparr>progress := 9/10 + export_progress t * (1/10)\<rparr>
      else if status t = COMPLETED then t\<lparr>progress := 1\<rparr>
      else t)"







lemma update_progress_status [simp]: "status (update_progress t) = status t"
  by (simp add: update_progress_def)

lemma update_progress_temp_files [simp]: "temp_files (update_progress t) = temp_files t"
  by (simp add: update_progress_def)

lemma update_progress_error [simp]: "error (update_progress t) = error t"
  by (simp add: update_progress_def)

lemma update_progress_result [simp]: "result (update_progress t) = result t"
  by (simp add: update_progress_def)

lemma update_progress_url [simp]: "url (update_progress t) = url t"
  by (simp add: update_progress_def)






section \<open>URL validation and batch creation (batch.py)\<close>

text \<open>
  \<^verbatim>\<open>urlparse\<close> belongs to Python's standard library, not to this repository: it is
  a parameter. It yields the scheme and the network location of a URL, or raises
  (\<open>None\<close>); \<^verbatim>\<open>validate_url\<close> turns every exception into \<^verbatim>\<open>False\<close>.
  Python's \<^verbatim>\<open>a in b\<close> on strings is the substring test \<^const>\<open>sublist\<close>.
\<close>

type_synonym urlparser = "string \<Rightarrow> (string \<times> string) option"

definition validate_url :: "urlparser \<Rightarrow> string \<Rightarrow> bool" where
  "validate_url urlparse u =
     (if u = [] then False
      else (case urlparse u of
              None \<Rightarrow> False
            | Some (scheme, netloc) \<Rightarrow>
                (scheme = ''http'' \<or> scheme = ''https'') \<and>
                (sublist ''youtube.com'' netloc \<or> sublist ''youtu.be'' netloc)))"

text \<open>
  A parser for URLs of the plain shape \<^verbatim>\<open>scheme://netloc/rest\<close>, used to run the
  definitions on concrete inputs: the scheme is what stands before the first
  \<^verbatim>\<open>://\<close>, the network location runs up to the next \<^verbatim>\<open>/\<close>, \<^verbatim>\<open>?\<close> or \<^verbatim>\<open>#\<close>.
\<close>

fun split_scheme :: "string \<Rightarrow> string \<Rightarrow> (string \<times> string) option" where
  "split_scheme acc [] = None"
| "split_scheme acc (c # cs) =
     (if c = CHR '':'' then
        (if take 2 cs = ''//'' then Some (rev acc, drop 2 cs) else None)
      else split_scheme (c # acc) cs)"

definition simple_urlparse :: urlparser where
  "simple_urlparse u =
     (case split_scheme [] u of
        None \<Rightarrow> Some ([], [])
      | Some (scheme, rest) \<Rightarrow>
          Some (scheme, takeWhile (\<lambda>c. c \<noteq> CHR ''/'' \<and> c \<noteq> CHR ''?'' \<and> c \<noteq> CHR ''#'') rest))"

text \<open>
  The part of \<^verbatim>\<open>BatchProcessor\<close> that \<^verbatim>\<open>process_batch\<close>, \<^verbatim>\<open>cancel\<close> and the
  monitor read and write. \<^verbatim>\<open>tasks\<close> is a Python dict: an association list in
  insertion order, where assigning to a key that is present replaces the value in
  place (\<^const>\<open>AList.update\<close>). \<^verbatim>\<open>futures\<close> lists the URLs whose pipeline run was
  submitted to the pool. The field \<^verbatim>\<open>status\<close> is \<open>batch_status\<close> here, the name
  \<open>status\<close> being the job's. \<open>on_completion_callback\<close> says whether a completion
  callback is registered; \<open>completions\<close> collects the payloads it was called with.
\<close>

record completion =
  c_status :: BatchStatus
  c_tasks :: "(string \<times> TaskProgress) list"
  c_completed :: nat
  c_failed :: nat
  c_total :: nat

record BatchProcessor =
  concurrency :: nat
  tasks :: "(string \<times> TaskProgress) list"
  futures :: "string list"
  batch_status :: BatchStatus
  cancel_event :: bool
  on_completion_callback :: bool
  completions :: "completion list"

datatype batch_result = Error string | Started "string list" nat

text \<open>The loop of lines 483-485: one fresh task per URL that validates.\<close>

fun init_tasks ::
  "urlparser \<Rightarrow> string list \<Rightarrow> (string \<times> TaskProgress) list \<Rightarrow> (string \<times> TaskProgress) list" where
  "init_tasks up [] ts = ts"
| "init_tasks up (u # us) ts =
     init_tasks up us (if validate_url up u then AList.update u (new_task u) ts else ts)"

text \<open>
  \<^verbatim>\<open>process_batch\<close> up to its immediate return (lines 469-505 and 552-556). The
  pipeline runs themselves happen in the pool, after the return.
\<close>

definition process_batch ::
  "urlparser \<Rightarrow> string list \<Rightarrow> BatchProcessor \<Rightarrow> batch_result \<times> BatchProcessor" where
  "process_batch up urls bp =
     (if urls = [] then (Error ''No URLs provided'', bp)
      else
        let bp1 = bp\<lparr>cancel_event := False, tasks := [], futures := [], batch_status := RUNNING\<rparr>;
            bp2 = bp1\<lparr>tasks := init_tasks up urls (tasks bp1)\<rparr>
        in if tasks bp2 = [] then (Error ''No valid YouTube URLs provided'', bp2)
           else
             let bp3 = bp2\<lparr>futures := map fst (tasks bp2)\<rparr>
             in (Started (map fst (tasks bp3)) (length (tasks bp3)), bp3))"

text \<open>\<^verbatim>\<open>cancel\<close> (lines 558-576).\<close>

definition cancel :: "BatchProcessor \<Rightarrow> bool \<times> BatchProcessor" where
  "cancel bp =
     (if batch_status bp \<noteq> RUNNING then (False, bp)
      else (True, bp\<lparr>cancel_event := True, batch_status := BATCH_CANCELLED\<rparr>))"

text \<open>
  The end of \<^verbatim>\<open>monitor_progress\<close> (lines 517-537), which runs once every future
  has settled: the batch status is derived and the completion callback, when one is
  registered, is called with the aggregate.
\<close>

definition count_status :: "TaskStatus \<Rightarrow> (string \<times> TaskProgress) list \<Rightarrow> nat" where
  "count_status st ts = length (filter (\<lambda>(u, t). status t = st) ts)"

definition monitor_progress :: "BatchProcessor \<Rightarrow> BatchProcessor" where
  "monitor_progress bp =
     (let st = (if cancel_event bp then BATCH_CANCELLED
                else if list_ex (\<lambda>(u, t). status t = FAILED) (tasks bp) then BATCH_FAILED
                else BATCH_COMPLETED);
          bp1 = bp\<lparr>batch_status := st\<rparr>
      in if on_completion_callback bp1
         then bp1\<lparr>completions := completions bp1 @
                [\<lparr>c_status = batch_status bp1, c_tasks = tasks bp1,
                  c_completed = count_status COMPLETED (tasks bp1),
                  c_failed = count_status FAILED (tasks bp1),
                  c_total = length (tasks bp1)\<rparr>]\<rparr>
         else bp1)"


text \<open>\<^verbatim>\<open>BatchProcessor.__init__\<close>: the concurrency is clamped to 1..10.\<close>

definition init_processor :: "nat \<Rightarrow> BatchProcessor" where
  "init_processor c = \<lparr> concurrency = max 1 (min 10 c), tasks = [], futures = [],
     batch_status = IDLE, cancel_event = False, on_completion_callback = False,
     completions = [] \<rparr>"

subsection \<open>Which jobs a batch creates\<close>

lemma set_alist_update:
  "p \<in> set (AList.update k v al) \<Longrightarrow> p = (k, v) \<or> p \<in> set al"
  by (induction al) (auto split: if_splits)

lemma init_tasks_keys:
  "set (map fst (init_tasks up urls ts)) = set (map fst ts) \<union> {u \<in> set urls. validate_url up u}"
  by (induction urls arbitrary: ts) (auto simp: dom_update)

lemma init_tasks_distinct:
  "distinct (map fst ts) \<Longrightarrow> distinct (map fst (init_tasks up urls ts))"
  by (induction urls arbitrary: ts) (auto simp: distinct_update)

lemma init_tasks_fresh:
  "(\<forall>k t. (k, t) \<in> set ts \<longrightarrow> t = new_task k) \<Longrightarrow>
   (k, t) \<in> set (init_tasks up urls ts) \<Longrightarrow> t = new_task k"
proof (induction urls arbitrary: ts)
  case Nil
  then show ?case by simp
next
  case (Cons u us)
  have "\<forall>k t. (k, t) \<in> set (AList.update u (new_task u) ts) \<longrightarrow> t = new_task k"
    using Cons.prems(1) by (auto dest: set_alist_update)
  with Cons show ?case by (auto split: if_splits)
qed

lemma init_tasks_length:
  "length (init_tasks up urls []) = card {u \<in> set urls. validate_url up u}"
proof -
  have "distinct (map fst (init_tasks up urls []))"
    by (rule init_tasks_distinct) simp
  then have "card (set (map fst (init_tasks up urls []))) = length (map fst (init_tasks up urls []))"
    by (rule distinct_card)
  then show ?thesis by (simp add: init_tasks_keys del: set_map)
qed

lemma init_tasks_empty_iff:
  "init_tasks up urls [] = [] \<longleftrightarrow> filter (validate_url up) urls = []"
proof -
  have "init_tasks up urls [] = [] \<longleftrightarrow> set (map fst (init_tasks up urls [])) = {}"
    by simp
  also have "\<dots> \<longleftrightarrow> {u \<in> set urls. validate_url up u} = {}"
    by (simp add: init_tasks_keys del: set_map)
  also have "\<dots> \<longleftrightarrow> filter (validate_url up) urls = []"
    by (auto simp: filter_empty_conv)
  finally show ?thesis .
qed

lemma distinct_filter_eq_one:
  "distinct xs \<Longrightarrow> x \<in> set xs \<Longrightarrow> length (filter (\<lambda>k. k = x) xs) = 1"
  by (induction xs) (auto simp: filter_empty_conv)

lemma distinct_count_list_le_one: "distinct xs \<Longrightarrow> count_list xs x \<le> 1"
  by (induction xs) (auto simp: count_list_0_iff)

lemma validate_examples:
  "validate_url simple_urlparse ''https://youtu.be/a'' = True"
  "validate_url simple_urlparse ''https://www.youtube.com/watch?v=b'' = True"
  "validate_url simple_urlparse ''ftp://youtube.com/c'' = False"
  "validate_url simple_urlparse ''https://example.org/youtube.com'' = False"
  by code_simp+

text \<open>
  Claim C7. \<^verbatim>\<open>process_batch\<close> drops every identifier that \<^verbatim>\<open>validate_url\<close>
  rejects, creates one fresh job for each identifier that passes (the job map's keys
  are exactly the valid identifiers, each once) and returns \<open>started\<close> with the
  list of those keys and their number as total; every such job is submitted. When no
  identifier passes, it returns an error and submits nothing: for an empty list the
  processor is untouched, otherwise the job map and the submissions are empty.
\<close>

theorem process_batch_valid_jobs:
  "process_batch up urls bp = (r, bp') \<Longrightarrow>
   (if filter (validate_url up) urls = []
    then (\<exists>m. r = Error m) \<and> (urls = [] \<longrightarrow> bp' = bp) \<and>
         (urls \<noteq> [] \<longrightarrow> tasks bp' = [] \<and> futures bp' = [])
    else r = Started (map fst (tasks bp')) (card {u \<in> set urls. validate_url up u}) \<and>
         set (map fst (tasks bp')) = {u \<in> set urls. validate_url up u} \<and>
         distinct (map fst (tasks bp')) \<and>
         (\<forall>(k, t) \<in> set (tasks bp'). t = new_task k) \<and>
         futures bp' = map fst (tasks bp') \<and> batch_status bp' = RUNNING)"
  using init_tasks_fresh [of "[]" _ _ up urls]
  by (auto simp: process_batch_def Let_def init_tasks_empty_iff init_tasks_length init_tasks_keys
      init_tasks_distinct simp del: set_map split: if_splits)

theorem process_batch_valid_jobs_witness:
  "fst (process_batch simple_urlparse
          [''https://youtu.be/a'', ''ftp://youtube.com/c'', ''https://www.youtube.com/watch?v=b'']
          (init_processor 2))
     = Started [''https://youtu.be/a'', ''https://www.youtube.com/watch?v=b''] 2 \<and>
   card {u \<in> set [''https://youtu.be/a'', ''ftp://youtube.com/c'',
                  ''https://www.youtube.com/watch?v=b'']. validate_url simple_urlparse u} = 2 \<and>
   (\<exists>m. fst (process_batch simple_urlparse [''ftp://youtube.com/c''] (init_processor 2)) = Error m)"
  using process_batch_valid_jobs [of simple_urlparse
      "[''https://youtu.be/a'', ''ftp://youtube.com/c'', ''https://www.youtube.com/watch?v=b'']"
      "init_processor 2" _ _, OF surjective_pairing]
    process_batch_valid_jobs [of simple_urlparse "[''ftp://youtube.com/c'']"
      "init_processor 2" _ _, OF surjective_pairing]
  by (simp add: validate_examples process_batch_def init_processor_def Let_def new_task_def)

text \<open>
  Claim C10. A valid URL that occurs more than once in the submitted list gets exactly
  one job, because the job map is keyed by the URL string; the returned total is the
  number of distinct valid URLs, which is then smaller than the number of valid list
  positions.
\<close>

theorem process_batch_duplicates_collapse:
  assumes "process_batch up urls bp = (r, bp')"
    and "validate_url up u" and "1 < count_list urls u"
  shows "length (filter (\<lambda>k. k = u) (map fst (tasks bp'))) = 1 \<and>
         r = Started (map fst (tasks bp')) (card {v \<in> set urls. validate_url up v}) \<and>
         card {v \<in> set urls. validate_url up v} < length (filter (validate_url up) urls)"
proof -
  from assms(3) have mem: "u \<in> set urls"
    by (metis count_list_0_iff not_less_zero)
  with assms(2) have ne: "filter (validate_url up) urls \<noteq> []"
    by (auto simp: filter_empty_conv)
  from process_batch_valid_jobs [OF assms(1)] ne
  have r: "r = Started (map fst (tasks bp')) (card {v \<in> set urls. validate_url up v})"
    and keys: "set (map fst (tasks bp')) = {v \<in> set urls. validate_url up v}"
    and dist: "distinct (map fst (tasks bp'))"
    by simp_all
  from keys mem assms(2) have "u \<in> set (map fst (tasks bp'))"
    by simp
  with dist have one: "length (filter (\<lambda>k. k = u) (map fst (tasks bp'))) = 1"
    by (rule distinct_filter_eq_one)
  have "count_list (filter (validate_url up) urls) u = count_list urls u"
    using assms(2) by (induction urls) auto
  with assms(3) have "\<not> distinct (filter (validate_url up) urls)"
    using distinct_count_list_le_one [of "filter (validate_url up) urls" u] by auto
  then have "card (set (filter (validate_url up) urls)) \<noteq> length (filter (validate_url up) urls)"
    using card_distinct by blast
  moreover have "card (set (filter (validate_url up) urls)) \<le> length (filter (validate_url up) urls)"
    by (rule card_length)
  moreover have "set (filter (validate_url up) urls) = {v \<in> set urls. validate_url up v}"
    by auto
  ultimately have "card {v \<in> set urls. validate_url up v} < length (filter (validate_url up) urls)"
    by simp
  with r one show ?thesis by simp
qed

theorem process_batch_duplicates_collapse_witness:
  "1 < count_list [''https://youtu.be/a'', ''https://youtu.be/a''] ''https://youtu.be/a'' \<and>
   fst (process_batch simple_urlparse [''https://youtu.be/a'', ''https://youtu.be/a'']
          (init_processor 2)) = Started [''https://youtu.be/a''] 1 \<and>
   length (filter (validate_url simple_urlparse) [''https://youtu.be/a'', ''https://youtu.be/a'']) = 2"
  using process_batch_duplicates_collapse [of simple_urlparse
      "[''https://youtu.be/a'', ''https://youtu.be/a'']" "init_processor 2" _ _
      "''https://youtu.be/a''", OF surjective_pairing]
  by (simp add: validate_examples process_batch_def init_processor_def Let_def new_task_def)


section \<open>The cache manager (cache.py)\<close>

text \<open>
  A parameter set is a Python dict from names to values; the callers of this
  repository pass a model name (a string) and a target language (a string or
  \<^verbatim>\<open>None\<close>). It is an association list with one pair per name; no parameters
  (\<^verbatim>\<open>None\<close> or the empty dict, which the truth test of line 135 does not tell
  apart) is the empty list. \<open>render\<close> is the formatting \<^verbatim>\<open>f"{v}"\<close>.
\<close>

type_synonym params = "(string \<times> string option) list"

definition render :: "string option \<Rightarrow> string" where
  "render v = (case v of None \<Rightarrow> ''None'' | Some s \<Rightarrow> s)"

text \<open>Python's \<^verbatim>\<open>sep.join(parts)\<close>.\<close>

fun join :: "string \<Rightarrow> string list \<Rightarrow> string" where
  "join sep [] = []"
| "join sep [x] = x"
| "join sep (x # y # ys) = x @ sep @ join sep (y # ys)"

text \<open>
  \<^verbatim>\<open>_get_cache_key\<close> (lines 120-141): the primary key, then one part \<^verbatim>\<open>k=v\<close> per
  parameter in the order of the sorted names, joined by a bar and hashed. The hash
  (\<^verbatim>\<open>hashlib.md5\<close>, hex digest) is a library function and a parameter here;
  \<open>key_string\<close> is the text that is hashed.
\<close>

definition key_parts :: "params \<Rightarrow> string list" where
  "key_parts ps = map (\<lambda>(k, v). k @ ''='' @ render v) (sort_key fst ps)"

definition key_string :: "string \<Rightarrow> params \<Rightarrow> string" where
  "key_string data_key ps = join ''|'' (data_key # (if ps \<noteq> [] then key_parts ps else []))"

definition get_cache_key :: "(string \<Rightarrow> string) \<Rightarrow> string \<Rightarrow> params \<Rightarrow> string" where
  "get_cache_key md5 data_key ps = md5 (key_string data_key ps)"

datatype CacheType = TRANSCRIPTION | TRANSLATION | DOWNLOAD | METADATA

record CacheStats =
  hits :: nat
  misses :: nat
  stores :: nat
  deletes :: nat
  errors :: nat

text \<open>
  Modelled from the spec: the storage engine behind each namespace
  (\<^verbatim>\<open>diskcache.FanoutCache\<close>, a third-party library) is absent from the sources. An
  entry is a payload with an absolute expiry, written as now + ttl; a lookup misses
  when the key is absent or the entry has expired. Size-bounded eviction is not
  modelled. Times are seconds as natural numbers.
\<close>

record 'v entry =
  payload :: 'v
  expire_time :: nat

type_synonym 'v backend = "string \<Rightarrow> 'v entry option"

definition backend_lookup :: "nat \<Rightarrow> 'v backend \<Rightarrow> string \<Rightarrow> 'v option" where
  "backend_lookup now b k =
     (case b k of
        None \<Rightarrow> None
      | Some en \<Rightarrow> if now < expire_time en then Some (payload en) else None)"

definition backend_write :: "nat \<Rightarrow> 'v backend \<Rightarrow> string \<Rightarrow> 'v \<Rightarrow> nat \<Rightarrow> 'v backend" where
  "backend_write now b k v ttl = b(k \<mapsto> \<lparr>payload = v, expire_time = now + ttl\<rparr>)"

text \<open>
  What the storage engine does on one call of the manager is the environment's
  choice: its \<^verbatim>\<open>get\<close> may raise, its \<^verbatim>\<open>set\<close> may succeed, report failure by
  returning \<^verbatim>\<open>False\<close>, or raise, and the metadata bookkeeping that follows a hit or
  a successful write may raise.
\<close>

datatype set_outcome = SetOk | SetFalse | SetRaises string

record backend_io =
  get_raises :: "string option"
  set_result :: set_outcome
  meta_raises :: "string option"

definition io_ok :: backend_io where
  "io_ok = \<lparr>get_raises = None, set_result = SetOk, meta_raises = None\<rparr>"

text \<open>
  The manager: default TTL, per-namespace statistics, per-namespace storage. The
  bookkeeping values that the source keeps in the METADATA namespace under the plain
  names \<^verbatim>\<open>access_count\<close>, \<^verbatim>\<open>last_access\<close>, \<^verbatim>\<open>last_store\<close> are not payloads; the
  counter is a field, the time stamps are left out.
\<close>

record 'v CacheManager =
  default_ttl :: nat
  stats :: "CacheType \<Rightarrow> CacheStats"
  caches :: "CacheType \<Rightarrow> 'v backend"
  access_count :: nat



definition upd_stats ::
  "CacheType \<Rightarrow> (CacheStats \<Rightarrow> CacheStats) \<Rightarrow> 'v CacheManager \<Rightarrow> 'v CacheManager" where
  "upd_stats ct f cm = cm\<lparr>stats := (stats cm)(ct := f (stats cm ct))\<rparr>"

text \<open>
  \<^verbatim>\<open>CacheManager.get\<close> (lines 143-181). \<open>get_try\<close> is the body of the \<^verbatim>\<open>try\<close>:
  \<open>Inl\<close> is an exception raised in it, with the manager as the statements before
  the raise left it. The \<^verbatim>\<open>except\<close> clause counts an error and returns \<^verbatim>\<open>None\<close>.
\<close>

definition get_try ::
  "nat \<Rightarrow> backend_io \<Rightarrow> CacheType \<Rightarrow> string \<Rightarrow> 'v CacheManager
     \<Rightarrow> (string + 'v option) \<times> 'v CacheManager" where
  "get_try now io ct cache_key cm =
     (case get_raises io of
        Some e \<Rightarrow> (Inl e, cm)
      | None \<Rightarrow>
         (case backend_lookup now (caches cm ct) cache_key of
            Some v \<Rightarrow>
              (let cm1 = upd_stats ct (\<lambda>st. st\<lparr>hits := hits st + 1\<rparr>) cm
               in if ct \<noteq> METADATA
                  then (case meta_raises io of
                          Some e \<Rightarrow> (Inl e, cm1)
                        | None \<Rightarrow> (Inr (Some v), cm1\<lparr>access_count := access_count cm1 + 1\<rparr>))
                  else (Inr (Some v), cm1))
          | None \<Rightarrow> (Inr None, upd_stats ct (\<lambda>st. st\<lparr>misses := misses st + 1\<rparr>) cm)))"

definition CacheManager_get ::
  "(string \<Rightarrow> string) \<Rightarrow> nat \<Rightarrow> backend_io \<Rightarrow> CacheType \<Rightarrow> string \<Rightarrow> params
     \<Rightarrow> 'v CacheManager \<Rightarrow> 'v option \<times> 'v CacheManager" where
  "CacheManager_get md5 now io ct key ps cm =
     (let cache_key = get_cache_key md5 key ps
      in case get_try now io ct cache_key cm of
           (Inr r, cm') \<Rightarrow> (r, cm')
         | (Inl e, cm') \<Rightarrow> (None, upd_stats ct (\<lambda>st. st\<lparr>errors := errors st + 1\<rparr>) cm'))"

text \<open>
  \<^verbatim>\<open>CacheManager.store\<close> (lines 183-221), in the same way. A write that the engine
  reports as unsuccessful takes the \<^verbatim>\<open>else\<close> branch of line 214: a warning and
  \<^verbatim>\<open>False\<close>, no counter.
\<close>

definition store_try ::
  "nat \<Rightarrow> backend_io \<Rightarrow> CacheType \<Rightarrow> string \<Rightarrow> 'v \<Rightarrow> nat \<Rightarrow> 'v CacheManager
     \<Rightarrow> (string + bool) \<times> 'v CacheManager" where
  "store_try now io ct cache_key data actual_ttl cm =
     (case set_result io of
        SetRaises e \<Rightarrow> (Inl e, cm)
      | SetFalse \<Rightarrow> (Inr False, cm)
      | SetOk \<Rightarrow>
         (let cm1 = cm\<lparr>caches := (caches cm)
                        (ct := backend_write now (caches cm ct) cache_key data actual_ttl)\<rparr>;
              cm2 = upd_stats ct (\<lambda>st. st\<lparr>stores := stores st + 1\<rparr>) cm1
          in if ct \<noteq> METADATA
             then (case meta_raises io of
                     Some e \<Rightarrow> (Inl e, cm2)
                   | None \<Rightarrow> (Inr True, cm2))
             else (Inr True, cm2)))"

definition CacheManager_store ::
  "(string \<Rightarrow> string) \<Rightarrow> nat \<Rightarrow> backend_io \<Rightarrow> CacheType \<Rightarrow> string \<Rightarrow> 'v \<Rightarrow> params
     \<Rightarrow> nat option \<Rightarrow> 'v CacheManager \<Rightarrow> bool \<times> 'v CacheManager" where
  "CacheManager_store md5 now io ct key data ps ttl cm =
     (let cache_key = get_cache_key md5 key ps;
          actual_ttl = (case ttl of Some t \<Rightarrow> t | None \<Rightarrow> default_ttl cm)
      in case store_try now io ct cache_key data actual_ttl cm of
           (Inr r, cm') \<Rightarrow> (r, cm')
         | (Inl e, cm') \<Rightarrow> (False, upd_stats ct (\<lambda>st. st\<lparr>errors := errors st + 1\<rparr>) cm'))"

subsection \<open>When two parameter sets get different keys\<close>










subsection \<open>Stores, lookups and storage faults\<close>

lemmas cache_defs = CacheManager_get_def CacheManager_store_def get_try_def store_try_def
  upd_stats_def backend_lookup_def backend_write_def Let_def







text \<open>
  A write that the storage reports as unsuccessful without raising is not an
  exception: \<^verbatim>\<open>store\<close> returns \<^verbatim>\<open>False\<close> and leaves the counters as they are.
\<close>

lemma store_unsuccessful_write:
  "set_result io = SetFalse \<Longrightarrow> CacheManager_store md5 now io ct k v ps ttl cm = (False, cm)"
  by (simp add: cache_defs)



section \<open>The pipeline run of one job (batch.py, \<^verbatim>\<open>_process_url\<close>)\<close>

text \<open>
  The collaborators (download, conversion, transcription, translation, export) are
  external: what each does when called is the environment's choice. A call reports
  progress fractions to its callback, in order, and then returns a value or raises
  with a message (\<^verbatim>\<open>str(e)\<close>).

  The cancellation switch is set by another thread. It is never cleared while a batch
  runs, so what a run sees of it is the index of the first of its own reads of
  \<^verbatim>\<open>cancel_event.is_set()\<close> that finds it set (\<open>cancel_from\<close>; \<open>None\<close> when
  none does). Clock readings and storage behaviour for the two cache calls, and the
  file system seen by the cleanup, are environment too.
\<close>

datatype 'a ret = Raise string | Return 'a

datatype collab = Download | Convert | Transcribe | Translate | Export

datatype event = Observed bool | Call collab

record args =
  model :: string
  target_lang :: "string option"
  output_dir :: "string option"
  formats :: "string list"

record env =
  cancel_from :: "nat option"
  get_now :: nat
  get_io :: backend_io
  store_now :: nat
  store_io :: backend_io
  download_reports :: "rat list"
  download_ret :: "string ret"
  convert_reports :: "rat list"
  convert_ret :: "string ret"
  transcribe_ret :: "pydict ret"
  translate_ret :: "string ret"
  export_ret :: "unit ret"
  file_exists :: "string \<Rightarrow> bool"
  remove_raises :: "string \<Rightarrow> bool"

text \<open>
  The state of a run: the job's record, the shared cache manager (if the processor has
  one), and four logs. \<open>events\<close> lists the reads of the switch and the collaborator
  calls begun; \<open>trace\<close> lists the job as it stood at each progress report
  (\<^verbatim>\<open>_report_progress(url)\<close>); \<open>cleaned\<close> lists the paths handed to
  \<^verbatim>\<open>cleanup_temp_files\<close> and \<open>removed\<close> those it deleted. Logs grow at the front.
\<close>

record run =
  task :: TaskProgress
  cache_manager :: "pydict CacheManager option"
  observed :: nat
  events :: "event list"
  trace :: "TaskProgress list"
  cleaned :: "string list"
  removed :: "string list"

definition start_run :: "TaskProgress \<Rightarrow> pydict CacheManager option \<Rightarrow> run" where
  "start_run t cmo = \<lparr> task = t, cache_manager = cmo, observed = 0, events = [], trace = [],
     cleaned = [], removed = [] \<rparr>"

text \<open>Python's truth test on an optional string.\<close>

definition truthy :: "string option \<Rightarrow> bool" where
  "truthy v = (case v of None \<Rightarrow> False | Some s \<Rightarrow> s \<noteq> [])"

definition is_set :: "env \<Rightarrow> run \<Rightarrow> bool \<times> run" where
  "is_set e s =
     (let b = (case cancel_from e of None \<Rightarrow> False | Some n \<Rightarrow> n \<le> observed s)
      in (b, s\<lparr>observed := Suc (observed s), events := Observed b # events s\<rparr>))"

definition report_progress :: "run \<Rightarrow> run" where
  "report_progress s = s\<lparr>trace := task s # trace s\<rparr>"

definition set_task :: "(TaskProgress \<Rightarrow> TaskProgress) \<Rightarrow> run \<Rightarrow> run" where
  "set_task f s = s\<lparr>task := f (task s)\<rparr>"

definition call :: "collab \<Rightarrow> run \<Rightarrow> run" where
  "call c s = s\<lparr>events := Call c # events s\<rparr>"

text \<open>
  The progress callbacks of lines 259-263 and 276-280: store the stage's fraction,
  recompute the overall progress, report.
\<close>

fun progress_callbacks ::
  "(rat \<Rightarrow> TaskProgress \<Rightarrow> TaskProgress) \<Rightarrow> rat list \<Rightarrow> run \<Rightarrow> run" where
  "progress_callbacks setp [] s = s"
| "progress_callbacks setp (p # ps) s =
     progress_callbacks setp ps (report_progress (set_task (\<lambda>t. update_progress (setp p t)) s))"

text \<open>
  \<^verbatim>\<open>cleanup_temp_files\<close> (audio_utils.py): a path is deleted when it is non-empty and
  exists; an exception of the deletion is caught and logged for that path alone. The
  result lists the paths deleted. \<^verbatim>\<open>TaskProgress.cleanup\<close> (lines 102-106) calls it
  when the list is non-empty and then empties the list.
\<close>

fun cleanup_temp_files :: "env \<Rightarrow> string list \<Rightarrow> string list" where
  "cleanup_temp_files e [] = []"
| "cleanup_temp_files e (p # ps) =
     (if p \<noteq> [] \<and> file_exists e p
      then (if remove_raises e p then [] else [p])
      else []) @ cleanup_temp_files e ps"

definition cleanup :: "env \<Rightarrow> run \<Rightarrow> run" where
  "cleanup e s =
     (if temp_files (task s) \<noteq> []
      then s\<lparr>cleaned := cleaned s @ temp_files (task s),
             removed := removed s @ cleanup_temp_files e (temp_files (task s)),
             task := (task s)\<lparr>temp_files := []\<rparr>\<rparr>
      else s)"

text \<open>
  The \<^verbatim>\<open>try\<close> block of lines 253-357, one definition per stage, each continuing
  with the next. \<open>Inl m\<close> is an exception with message \<open>m\<close> raised in the block,
  \<open>Inr res\<close> the normal end with the result. First the end of the block: the result
  is stored in the cache (lines 340-343) and the job completes (lines 345-351).
\<close>

definition completing ::
  "(string \<Rightarrow> string) \<Rightarrow> env \<Rightarrow> args \<Rightarrow> string \<Rightarrow> pydict \<Rightarrow> run \<Rightarrow> (string + pydict) \<times> run" where
  "completing md5 e a u res s =
     (let s1 = (case cache_manager s of
                  None \<Rightarrow> s
                | Some cm \<Rightarrow>
                    if res \<noteq> []
                    then s\<lparr>cache_manager := Some (snd (CacheManager_store md5 (store_now e)
                            (store_io e) TRANSCRIPTION u res
                            [(''model'', Some (model a)), (''target_lang'', target_lang a)]
                            None cm))\<rparr>
                    else s);
          s2 = report_progress
                 (set_task (\<lambda>t. t\<lparr>status := COMPLETED, progress := 1, result := Some res\<rparr>) s1)
      in (Inr res, s2))"

text \<open>Lines 322-338.\<close>

definition exporting ::
  "(string \<Rightarrow> string) \<Rightarrow> env \<Rightarrow> args \<Rightarrow> string \<Rightarrow> pydict \<Rightarrow> run \<Rightarrow> (string + pydict) \<times> run" where
  "exporting md5 e a u res s =
     (if formats a \<noteq> [] \<and> truthy (output_dir a)
      then
        (let s1 = report_progress
                    (set_task (\<lambda>t. update_progress (t\<lparr>status := EXPORTING, export_progress := 0\<rparr>)) s);
             (c, s2) = is_set e s1
         in if c then (Inl ''Task cancelled'', s2)
            else
              (case export_ret e of
                 Raise m \<Rightarrow> (Inl m, call Export s2)
               | Return x \<Rightarrow>
                   completing md5 e a u res
                     (report_progress
                        (set_task (\<lambda>t. update_progress (t\<lparr>export_progress := 1\<rparr>))
                           (call Export s2)))))
      else completing md5 e a u res s)"

text \<open>Lines 303-320.\<close>

definition translating ::
  "(string \<Rightarrow> string) \<Rightarrow> env \<Rightarrow> args \<Rightarrow> string \<Rightarrow> pydict \<Rightarrow> run \<Rightarrow> (string + pydict) \<times> run" where
  "translating md5 e a u res s =
     (if truthy (target_lang a)
      then
        (let s1 = report_progress
                    (set_task (\<lambda>t. update_progress
                                 (t\<lparr>status := TRANSLATING, translation_progress := 0\<rparr>)) s);
             (c, s2) = is_set e s1
         in if c then (Inl ''Task cancelled'', s2)
            else
              (case translate_ret e of
                 Raise m \<Rightarrow> (Inl m, call Translate s2)
               | Return translated_text \<Rightarrow>
                   exporting md5 e a u (AList.update ''translated_text'' translated_text res)
                     (report_progress
                        (set_task (\<lambda>t. update_progress (t\<lparr>translation_progress := 1\<rparr>))
                           (call Translate s2)))))
      else exporting md5 e a u res s)"

text \<open>Lines 288-301.\<close>

definition transcribing ::
  "(string \<Rightarrow> string) \<Rightarrow> env \<Rightarrow> args \<Rightarrow> string \<Rightarrow> run \<Rightarrow> (string + pydict) \<times> run" where
  "transcribing md5 e a u s =
     (let s1 = report_progress
                 (set_task (\<lambda>t. update_progress
                              (t\<lparr>status := TRANSCRIBING, transcription_progress := 0\<rparr>)) s);
          (c, s2) = is_set e s1
      in if c then (Inl ''Task cancelled'', s2)
         else
           (case transcribe_ret e of
              Raise m \<Rightarrow> (Inl m, call Transcribe s2)
            | Return res \<Rightarrow> translating md5 e a u res (call Transcribe s2)))"

text \<open>Lines 271-286.\<close>

definition converting ::
  "(string \<Rightarrow> string) \<Rightarrow> env \<Rightarrow> args \<Rightarrow> string \<Rightarrow> run \<Rightarrow> (string + pydict) \<times> run" where
  "converting md5 e a u s =
     (let s1 = report_progress (set_task (\<lambda>t. t\<lparr>status := CONVERTING\<rparr>) s);
          (c, s2) = is_set e s1
      in if c then (Inl ''Task cancelled'', s2)
         else
           (let s3 = progress_callbacks (\<lambda>p t. t\<lparr>conversion_progress := p\<rparr>)
                       (convert_reports e) (call Convert s2)
            in case convert_ret e of
                 Raise m \<Rightarrow> (Inl m, s3)
               | Return wav_path \<Rightarrow>
                   transcribing md5 e a u
                     (set_task (\<lambda>t. t\<lparr>temp_files := temp_files t @ [wav_path]\<rparr>) s3)))"

text \<open>Lines 254-269.\<close>

definition downloading ::
  "(string \<Rightarrow> string) \<Rightarrow> env \<Rightarrow> args \<Rightarrow> string \<Rightarrow> run \<Rightarrow> (string + pydict) \<times> run" where
  "downloading md5 e a u s =
     (let s1 = report_progress (set_task (\<lambda>t. t\<lparr>status := DOWNLOADING\<rparr>) s);
          (c, s2) = is_set e s1
      in if c then (Inl ''Task cancelled'', s2)
         else
           (let s3 = progress_callbacks (\<lambda>p t. t\<lparr>download_progress := p\<rparr>)
                       (download_reports e) (call Download s2)
            in case download_ret e of
                 Raise m \<Rightarrow> (Inl m, s3)
               | Return audio_path \<Rightarrow>
                   converting md5 e a u
                     (set_task (\<lambda>t. t\<lparr>temp_files := temp_files t @ [audio_path]\<rparr>) s3)))"

text \<open>
  The \<^verbatim>\<open>except\<close> clause (lines 359-378): the switch decides between Cancelled and
  Failed, the message becomes the job's error.
\<close>

definition except_handler :: "env \<Rightarrow> string \<Rightarrow> run \<Rightarrow> TaskStatus \<times> run" where
  "except_handler e m s =
     (let (c, s1) = is_set e s;
          st = (if c then CANCELLED else FAILED)
      in (st, report_progress (set_task (\<lambda>t. t\<lparr>status := st, error := Some m\<rparr>) s1)))"

text \<open>
  The cache lookup of lines 216-224: the parameters hold the model, and the target
  language only when it is truthy; a cached value counts when it is truthy.
\<close>

definition cache_lookup ::
  "(string \<Rightarrow> string) \<Rightarrow> env \<Rightarrow> args \<Rightarrow> string \<Rightarrow> run \<Rightarrow> pydict option \<times> run" where
  "cache_lookup md5 e a u s =
     (case cache_manager s of
        None \<Rightarrow> (None, s)
      | Some cm \<Rightarrow>
          (let cache_params = (''model'', Some (model a)) #
                 (if truthy (target_lang a) then [(''target_lang'', target_lang a)] else []);
               (r, cm') = CacheManager_get md5 (get_now e) (get_io e) TRANSCRIPTION u
                            cache_params cm
           in ((case r of None \<Rightarrow> None | Some d \<Rightarrow> if d \<noteq> [] then Some d else None),
               s\<lparr>cache_manager := Some cm'\<rparr>)))"

text \<open>
  What \<^verbatim>\<open>_process_url\<close> returns: the dict with status \<^verbatim>\<open>completed\<close> (result and
  whether it came from the cache), \<^verbatim>\<open>failed\<close> (error) or \<^verbatim>\<open>cancelled\<close> (error, absent
  when cancelled before the start). \<open>Inl m\<close> is an exception that leaves the function.
\<close>

datatype url_result = RCompleted pydict bool | RFailed string | RCancelled "string option"

text \<open>
  \<^verbatim>\<open>_process_url\<close> (lines 205-381). The cache hit returns from within the lookup
  branch, before the \<^verbatim>\<open>try\<close>: its export call is covered neither by the
  \<^verbatim>\<open>except\<close> clause nor by the \<^verbatim>\<open>finally\<close>. (Lines 246-247 cannot be reached.)
\<close>

definition process_url ::
  "(string \<Rightarrow> string) \<Rightarrow> env \<Rightarrow> args \<Rightarrow> string \<Rightarrow> run \<Rightarrow> (string + url_result) \<times> run" where
  "process_url md5 e a u s0 =
     (let (c, s1) = is_set e s0
      in if c
         then (Inr (RCancelled None),
               report_progress (set_task (\<lambda>t. update_progress (t\<lparr>status := CANCELLED\<rparr>)) s1))
         else
           (let (cached_result, s2) = cache_lookup md5 e a u s1
            in case cached_result of
                 Some cached \<Rightarrow>
                   (let s3 = report_progress
                               (set_task (\<lambda>t. t\<lparr>status := COMPLETED, progress := 1,
                                               result := Some cached\<rparr>) s2)
                    in if formats a \<noteq> [] \<and> truthy (output_dir a)
                       then (case export_ret e of
                               Raise m \<Rightarrow> (Inl m, call Export s3)
                             | Return x \<Rightarrow> (Inr (RCompleted cached True), call Export s3))
                       else (Inr (RCompleted cached True), s3))
               | None \<Rightarrow>
                   (case downloading md5 e a u s2 of
                      (Inr res, s3) \<Rightarrow> (Inr (RCompleted res False), cleanup e s3)
                    | (Inl m, s3) \<Rightarrow>
                        (let (st, s4) = except_handler e m s3
                         in (Inr (if st = FAILED then RFailed m else RCancelled (Some m)),
                             cleanup e s4)))))"

text \<open>
  A pipeline run inside a batch: \<^verbatim>\<open>task = self.tasks[url]\<close> is the job's record in
  the batch's job map (a missing key raises in the worker and changes nothing), every
  write of the run goes to that record, and the cache manager is the shared one.
\<close>

definition run_in_batch ::
  "(string \<Rightarrow> string) \<Rightarrow> env \<Rightarrow> args \<Rightarrow> string \<Rightarrow> pydict CacheManager option \<Rightarrow> BatchProcessor
     \<Rightarrow> BatchProcessor \<times> pydict CacheManager option" where
  "run_in_batch md5 e a u cmo bp =
     (case map_of (tasks bp) u of
        None \<Rightarrow> (bp, cmo)
      | Some t \<Rightarrow>
          (let s = snd (process_url md5 e a u (start_run t cmo))
           in (bp\<lparr>tasks := AList.update u (task s) (tasks bp)\<rparr>, cache_manager s)))"

subsection \<open>An environment to run the definitions on\<close>

text \<open>
  A run in which every collaborator succeeds and nobody cancels, and a request for
  model \<^verbatim>\<open>small\<close> with export to \<^verbatim>\<open>out\<close> as \<^verbatim>\<open>srt\<close> and no translation. The
  examples below vary them.
\<close>

definition env_ok :: env where
  "env_ok = \<lparr> cancel_from = None, get_now = 0, get_io = io_ok, store_now = 0, store_io = io_ok,
     download_reports = [1/2, 1], download_ret = Return ''/tmp/a.m4a'',
     convert_reports = [1/2, 1], convert_ret = Return ''/tmp/a.wav'',
     transcribe_ret = Return [(''text'', ''hello'')],
     translate_ret = Return ''bonjour'', export_ret = Return (),
     file_exists = (\<lambda>p. True), remove_raises = (\<lambda>p. False) \<rparr>"

definition args_plain :: args where
  "args_plain = \<lparr> model = ''small'', target_lang = None, output_dir = Some ''out'',
     formats = [''srt''] \<rparr>"

subsection \<open>Cancellation\<close>

text \<open>
  \<open>switch_seen\<close>: the next read of the switch finds it set. \<open>no_call_after_set\<close>
  holds of an event log (newest first) in which no collaborator call was begun after
  a read that found the switch set.
\<close>

definition switch_seen :: "env \<Rightarrow> run \<Rightarrow> bool" where
  "switch_seen e s = (\<exists>n. cancel_from e = Some n \<and> n \<le> observed s)"

fun no_call_after_set :: "event list \<Rightarrow> bool" where
  "no_call_after_set [] = True"
| "no_call_after_set (Call c # es) = (Observed True \<notin> set es \<and> no_call_after_set es)"
| "no_call_after_set (Observed b # es) = no_call_after_set es"

definition clean :: "run \<Rightarrow> bool" where
  "clean s = (Observed True \<notin> set (events s))"

definition try_post :: "env \<Rightarrow> (string + pydict) \<times> run \<Rightarrow> bool" where
  "try_post e rs =
     (case rs of (r, s') \<Rightarrow>
        no_call_after_set (events s') \<and>
        (case r of Inr x \<Rightarrow> clean s' | Inl m \<Rightarrow> clean s' \<or> switch_seen e s'))"

lemma is_set_eq:
  "is_set e s = (switch_seen e s, s\<lparr>observed := Suc (observed s), events := Observed (switch_seen e s) # events s\<rparr>)"
  by (auto simp: is_set_def switch_seen_def Let_def split: option.splits)

lemma clean_no_call: "Observed True \<notin> set es \<Longrightarrow> no_call_after_set es"
  by (induction es rule: no_call_after_set.induct) auto

lemma callbacks_fields [simp]:
  "events (progress_callbacks f ps s) = events s"
  "observed (progress_callbacks f ps s) = observed s"
  "cache_manager (progress_callbacks f ps s) = cache_manager s"
  "cleaned (progress_callbacks f ps s) = cleaned s"
  "removed (progress_callbacks f ps s) = removed s"
  by (induction f ps s rule: progress_callbacks.induct) (simp_all add: report_progress_def set_task_def)

lemma observed_upd [simp]:
  "observed (report_progress s) = observed s"
  "observed (set_task f s) = observed s"
  "observed (call c s) = observed s"
  by (simp_all add: report_progress_def set_task_def call_def)

lemma switch_seen_upd [simp]:
  "switch_seen e (report_progress s) = switch_seen e s"
  "switch_seen e (set_task f s) = switch_seen e s"
  "switch_seen e (call c s) = switch_seen e s"
  "switch_seen e (progress_callbacks g ps s) = switch_seen e s"
  "switch_seen e (s\<lparr>cache_manager := cm\<rparr>) = switch_seen e s"
  by (simp_all add: switch_seen_def)

lemma switch_seen_mono:
  "switch_seen e s \<Longrightarrow> switch_seen e (s\<lparr>observed := Suc (observed s), events := es\<rparr>)"
  by (auto simp: switch_seen_def split: option.splits)

lemma events_upd [simp]:
  "events (report_progress s) = events s"
  "events (set_task f s) = events s"
  "events (call c s) = Call c # events s"
  by (simp_all add: report_progress_def set_task_def call_def)

lemma clean_upd [simp]:
  "clean (report_progress s) = clean s"
  "clean (set_task f s) = clean s"
  "clean (call c s) = clean s"
  "clean (progress_callbacks g ps s) = clean s"
  "clean (s\<lparr>cache_manager := cm\<rparr>) = clean s"
  by (simp_all add: clean_def)

lemma completing_post: "clean s \<Longrightarrow> try_post e (completing md5 e a u res s)"
  by (auto simp: completing_def try_post_def Let_def clean_def clean_no_call split: option.splits)

lemma exporting_post: "clean s \<Longrightarrow> try_post e (exporting md5 e a u res s)"
  unfolding exporting_def
  by (auto simp: is_set_eq Let_def intro!: completing_post split: ret.splits)
     (auto simp: try_post_def clean_def clean_no_call switch_seen_def split: option.splits)

lemma translating_post: "clean s \<Longrightarrow> try_post e (translating md5 e a u res s)"
  unfolding translating_def
  by (auto simp: is_set_eq Let_def intro!: exporting_post split: ret.splits)
     (auto simp: try_post_def clean_def clean_no_call switch_seen_def split: option.splits)

lemma transcribing_post: "clean s \<Longrightarrow> try_post e (transcribing md5 e a u s)"
  unfolding transcribing_def
  by (auto simp: is_set_eq Let_def intro!: translating_post split: ret.splits)
     (auto simp: try_post_def clean_def clean_no_call switch_seen_def split: option.splits)

lemma converting_post: "clean s \<Longrightarrow> try_post e (converting md5 e a u s)"
  unfolding converting_def
  by (auto simp: is_set_eq Let_def intro!: transcribing_post split: ret.splits)
     (auto simp: try_post_def clean_def clean_no_call switch_seen_def split: option.splits)

lemma downloading_post: "clean s \<Longrightarrow> try_post e (downloading md5 e a u s)"
  unfolding downloading_def
  by (auto simp: is_set_eq Let_def intro!: converting_post split: ret.splits)
     (auto simp: try_post_def clean_def clean_no_call switch_seen_def split: option.splits)


lemma cache_lookup_fields [simp]:
  "events (snd (cache_lookup md5 e a u s)) = events s"
  "observed (snd (cache_lookup md5 e a u s)) = observed s"
  "task (snd (cache_lookup md5 e a u s)) = task s"
  "trace (snd (cache_lookup md5 e a u s)) = trace s"
  "cleaned (snd (cache_lookup md5 e a u s)) = cleaned s"
  by (simp_all add: cache_lookup_def Let_def split_def split: option.splits)

lemma cleanup_fields [simp]:
  "events (cleanup e s) = events s"
  "observed (cleanup e s) = observed s"
  "trace (cleanup e s) = trace s"
  "cache_manager (cleanup e s) = cache_manager s"
  "temp_files (task (cleanup e s)) = []"
  "status (task (cleanup e s)) = status (task s)"
  "error (task (cleanup e s)) = error (task s)"
  "result (task (cleanup e s)) = result (task s)"
  "progress (task (cleanup e s)) = progress (task s)"
  by (simp_all add: cleanup_def)

lemma except_handler_eq:
  "except_handler e m s =
     (if switch_seen e s then CANCELLED else FAILED,
      report_progress (set_task (\<lambda>t. t\<lparr>status := (if switch_seen e s then CANCELLED else FAILED),
                                       error := Some m\<rparr>)
        (s\<lparr>observed := Suc (observed s), events := Observed (switch_seen e s) # events s\<rparr>)))"
  by (simp add: except_handler_def is_set_eq Let_def)

subsection \<open>Running the pipeline step by step\<close>

text \<open>
  Each stage as one equation on the state it starts from: cancelled at the
  checkpoint, collaborator raised, or collaborator returned and the next stage runs.
  The equations evaluate a run on a concrete environment stage by stage.
\<close>

text \<open>
  \<open>finish_try\<close> is what follows the \<^verbatim>\<open>try\<close> block: the normal return, or the
  \<^verbatim>\<open>except\<close> clause, and the cleanup of the \<^verbatim>\<open>finally\<close> clause in both cases.
  \<open>checked\<close> is the state after one read of the switch.
\<close>

fun finish_try :: "env \<Rightarrow> (string + pydict) \<times> run \<Rightarrow> (string + url_result) \<times> run" where
  "finish_try e (Inr res, s3) = (Inr (RCompleted res False), cleanup e s3)"
| "finish_try e (Inl m, s3) =
     (Inr (if fst (except_handler e m s3) = FAILED then RFailed m else RCancelled (Some m)),
      cleanup e (snd (except_handler e m s3)))"

definition checked :: "env \<Rightarrow> run \<Rightarrow> run" where
  "checked e s = s\<lparr>observed := Suc (observed s), events := Observed (switch_seen e s) # events s\<rparr>"

lemma is_set_checked: "is_set e s = (switch_seen e s, checked e s)"
  by (simp add: is_set_eq checked_def)

lemma switch_seen_eval:
  "switch_seen e s = (case cancel_from e of None \<Rightarrow> False | Some n \<Rightarrow> n \<le> observed s)"
  by (auto simp: switch_seen_def split: option.splits)

lemma process_url_step:
  "process_url md5 e a u s0 =
     (if switch_seen e s0
      then (Inr (RCancelled None),
            report_progress (set_task (\<lambda>t. update_progress (t\<lparr>status := CANCELLED\<rparr>)) (checked e s0)))
      else (case fst (cache_lookup md5 e a u (checked e s0)) of
              Some cached \<Rightarrow>
                (if formats a \<noteq> [] \<and> truthy (output_dir a)
                 then (case export_ret e of
                         Raise m \<Rightarrow> (Inl m, call Export (report_progress
                             (set_task (\<lambda>t. t\<lparr>status := COMPLETED, progress := 1, result := Some cached\<rparr>)
                                (snd (cache_lookup md5 e a u (checked e s0))))))
                       | Return x \<Rightarrow> (Inr (RCompleted cached True), call Export (report_progress
                             (set_task (\<lambda>t. t\<lparr>status := COMPLETED, progress := 1, result := Some cached\<rparr>)
                                (snd (cache_lookup md5 e a u (checked e s0)))))))
                 else (Inr (RCompleted cached True), report_progress
                             (set_task (\<lambda>t. t\<lparr>status := COMPLETED, progress := 1, result := Some cached\<rparr>)
                                (snd (cache_lookup md5 e a u (checked e s0))))))
            | None \<Rightarrow> finish_try e (downloading md5 e a u (snd (cache_lookup md5 e a u (checked e s0))))))"
  by (cases "downloading md5 e a u (snd (cache_lookup md5 e a u (checked e s0)))";
      cases "fst (downloading md5 e a u (snd (cache_lookup md5 e a u (checked e s0))))")
     (auto simp: process_url_def is_set_checked Let_def split_def split: option.splits ret.splits)

lemma downloading_step:
  "downloading md5 e a u s =
     (if switch_seen e s
      then (Inl ''Task cancelled'',
            checked e (report_progress (set_task (\<lambda>t. t\<lparr>status := DOWNLOADING\<rparr>) s)))
      else (case download_ret e of
              Raise m \<Rightarrow>
                (Inl m, progress_callbacks (\<lambda>p t. t\<lparr>download_progress := p\<rparr>) (download_reports e)
                   (call Download (checked e (report_progress (set_task (\<lambda>t. t\<lparr>status := DOWNLOADING\<rparr>) s)))))
            | Return audio_path \<Rightarrow>
                converting md5 e a u
                  (set_task (\<lambda>t. t\<lparr>temp_files := temp_files t @ [audio_path]\<rparr>)
                     (progress_callbacks (\<lambda>p t. t\<lparr>download_progress := p\<rparr>) (download_reports e)
                        (call Download (checked e (report_progress
                           (set_task (\<lambda>t. t\<lparr>status := DOWNLOADING\<rparr>) s))))))))"
  by (simp add: downloading_def is_set_checked Let_def split: ret.splits)

lemma converting_step:
  "converting md5 e a u s =
     (if switch_seen e s
      then (Inl ''Task cancelled'',
            checked e (report_progress (set_task (\<lambda>t. t\<lparr>status := CONVERTING\<rparr>) s)))
      else (case convert_ret e of
              Raise m \<Rightarrow>
                (Inl m, progress_callbacks (\<lambda>p t. t\<lparr>conversion_progress := p\<rparr>) (convert_reports e)
                   (call Convert (checked e (report_progress (set_task (\<lambda>t. t\<lparr>status := CONVERTING\<rparr>) s)))))
            | Return wav_path \<Rightarrow>
                transcribing md5 e a u
                  (set_task (\<lambda>t. t\<lparr>temp_files := temp_files t @ [wav_path]\<rparr>)
                     (progress_callbacks (\<lambda>p t. t\<lparr>conversion_progress := p\<rparr>) (convert_reports e)
                        (call Convert (checked e (report_progress
                           (set_task (\<lambda>t. t\<lparr>status := CONVERTING\<rparr>) s))))))))"
  by (simp add: converting_def is_set_checked Let_def split: ret.splits)

lemma transcribing_step:
  "transcribing md5 e a u s =
     (if switch_seen e s
      then (Inl ''Task cancelled'',
            checked e (report_progress (set_task
              (\<lambda>t. update_progress (t\<lparr>status := TRANSCRIBING, transcription_progress := 0\<rparr>)) s)))
      else (case transcribe_ret e of
              Raise m \<Rightarrow>
                (Inl m, call Transcribe (checked e (report_progress (set_task
                   (\<lambda>t. update_progress (t\<lparr>status := TRANSCRIBING, transcription_progress := 0\<rparr>)) s))))
            | Return res \<Rightarrow>
                translating md5 e a u res
                  (call Transcribe (checked e (report_progress (set_task
                     (\<lambda>t. update_progress (t\<lparr>status := TRANSCRIBING, transcription_progress := 0\<rparr>)) s))))))"
  by (simp add: transcribing_def is_set_checked Let_def split: ret.splits)

lemma translating_step:
  "translating md5 e a u res s =
     (if \<not> truthy (target_lang a) then exporting md5 e a u res s
      else if switch_seen e s
      then (Inl ''Task cancelled'',
            checked e (report_progress (set_task
              (\<lambda>t. update_progress (t\<lparr>status := TRANSLATING, translation_progress := 0\<rparr>)) s)))
      else (case translate_ret e of
              Raise m \<Rightarrow>
                (Inl m, call Translate (checked e (report_progress (set_task
                   (\<lambda>t. update_progress (t\<lparr>status := TRANSLATING, translation_progress := 0\<rparr>)) s))))
            | Return translated_text \<Rightarrow>
                exporting md5 e a u (AList.update ''translated_text'' translated_text res)
                  (report_progress (set_task (\<lambda>t. update_progress (t\<lparr>translation_progress := 1\<rparr>))
                     (call Translate (checked e (report_progress (set_task
                        (\<lambda>t. update_progress (t\<lparr>status := TRANSLATING, translation_progress := 0\<rparr>)) s))))))))"
  by (simp add: translating_def is_set_checked Let_def split: ret.splits)

lemma exporting_step:
  "exporting md5 e a u res s =
     (if \<not> (formats a \<noteq> [] \<and> truthy (output_dir a)) then completing md5 e a u res s
      else if switch_seen e s
      then (Inl ''Task cancelled'',
            checked e (report_progress (set_task
              (\<lambda>t. update_progress (t\<lparr>status := EXPORTING, export_progress := 0\<rparr>)) s)))
      else (case export_ret e of
              Raise m \<Rightarrow>
                (Inl m, call Export (checked e (report_progress (set_task
                   (\<lambda>t. update_progress (t\<lparr>status := EXPORTING, export_progress := 0\<rparr>)) s))))
            | Return x \<Rightarrow>
                completing md5 e a u res
                  (report_progress (set_task (\<lambda>t. update_progress (t\<lparr>export_progress := 1\<rparr>))
                     (call Export (checked e (report_progress (set_task
                        (\<lambda>t. update_progress (t\<lparr>status := EXPORTING, export_progress := 0\<rparr>)) s))))))))"
  by (simp add: exporting_def is_set_checked Let_def split: ret.splits)

lemma except_handler_step:
  "except_handler e m s =
     (if switch_seen e s then CANCELLED else FAILED,
      report_progress (set_task (\<lambda>t. t\<lparr>status := (if switch_seen e s then CANCELLED else FAILED),
                                       error := Some m\<rparr>) (checked e s)))"
  by (simp add: except_handler_eq checked_def)

lemmas step_rules = process_url_step downloading_step converting_step transcribing_step
  translating_step exporting_step except_handler_step completing_def cache_lookup_def cleanup_def
  switch_seen_eval checked_def report_progress_def set_task_def call_def start_run_def truthy_def

text \<open>
  Claim C3. In a run that starts without the switch having been seen, no collaborator
  call begins after a read that found the switch set (the call in progress when the
  switch is set is not interrupted: it returns or raises), and whenever some read
  found it set, at a stage-entry checkpoint or in the exception handler, the job ends
  Cancelled, not Failed, and the run returns \<^verbatim>\<open>cancelled\<close>.
\<close>

theorem cancellation_stops_new_stages:
  assumes "Observed True \<notin> set (events s0)" and "process_url md5 e a u s0 = (r, s')"
  shows "no_call_after_set (events s') \<and>
         (Observed True \<in> set (events s') \<longrightarrow>
            status (task s') = CANCELLED \<and> (\<exists>m. r = Inr (RCancelled m)))"
proof (cases "switch_seen e s0")
  case True
  with assms show ?thesis
    by (auto simp: process_url_def is_set_eq Let_def clean_no_call set_task_def report_progress_def)
next
  case False
  let ?s1 = "s0\<lparr>observed := Suc (observed s0), events := Observed False # events s0\<rparr>"
  let ?s2 = "snd (cache_lookup md5 e a u ?s1)"
  have c2: "clean ?s2" using assms(1) by (simp add: clean_def)
  show ?thesis
  proof (cases "fst (cache_lookup md5 e a u ?s1)")
    case (Some cached)
    with False assms show ?thesis
      by (auto simp: process_url_def is_set_eq Let_def split_def clean_no_call
          set_task_def report_progress_def call_def split: ret.splits if_splits)
  next
    case None
    obtain t s3 where d: "downloading md5 e a u ?s2 = (t, s3)"
      by (cases "downloading md5 e a u ?s2")
    from downloading_post [OF c2, of e md5 a u] d
    have post: "no_call_after_set (events s3)"
      and inr: "\<And>x. t = Inr x \<Longrightarrow> clean s3"
      and inl: "\<And>m. t = Inl m \<Longrightarrow> clean s3 \<or> switch_seen e s3"
      by (auto simp: try_post_def)
    show ?thesis
    proof (cases t)
      case (Inr x)
      with False None d assms(2) post inr [OF Inr] show ?thesis
        by (auto simp: process_url_def is_set_eq Let_def split_def clean_def)
    next
      case (Inl m)
      with False None d assms(2) post inl [OF Inl] show ?thesis
        by (auto simp: process_url_def is_set_eq Let_def split_def clean_def except_handler_eq
            set_task_def report_progress_def)
    qed
  qed
qed

theorem cancellation_stops_new_stages_witness:
  "Observed True \<notin> set (events (start_run (new_task ''u'') None)) \<and>
   rev (events (snd (process_url (\<lambda>s. s) (env_ok\<lparr>cancel_from := Some 3\<rparr>) args_plain ''u''
                       (start_run (new_task ''u'') None))))
     = [Observed False, Observed False, Call Download, Observed False, Call Convert,
        Observed True, Observed True] \<and>
   status (task (snd (process_url (\<lambda>s. s) (env_ok\<lparr>cancel_from := Some 3\<rparr>) args_plain ''u''
                       (start_run (new_task ''u'') None)))) = CANCELLED"
  using cancellation_stops_new_stages [of "start_run (new_task ''u'') None" "\<lambda>s. s"
      "env_ok\<lparr>cancel_from := Some 3\<rparr>" args_plain "''u''" _ _, OF _ surjective_pairing]
  by (simp add: step_rules env_ok_def args_plain_def new_task_def update_progress_def)

subsection \<open>Temporary files\<close>

text \<open>
  \<open>holds_all\<close>: every temporary file that a reported snapshot of the job held is
  still in the job's list.
\<close>

definition holds_all :: "run \<Rightarrow> bool" where
  "holds_all s = (\<forall>t \<in> set (trace s). set (temp_files t) \<subseteq> set (temp_files (task s)))"

lemma holds_report [simp]: "holds_all (report_progress s) = holds_all s"
  by (auto simp: holds_all_def report_progress_def)


lemma holds_other [simp]:
  "holds_all (call c s) = holds_all s"
  "holds_all (s\<lparr>cache_manager := cm\<rparr>) = holds_all s"
  "holds_all (s\<lparr>observed := n, events := es\<rparr>) = holds_all s"
  by (simp_all add: holds_all_def call_def)









lemma cleaned_upd [simp]:
  "cleaned (report_progress s) = cleaned s"
  "cleaned (set_task f s) = cleaned s"
  "cleaned (call c s) = cleaned s"
  by (simp_all add: report_progress_def set_task_def call_def)

lemma trace_upd [simp]:
  "trace (report_progress s) = task s # trace s"
  "trace (set_task f s) = trace s"
  "trace (call c s) = trace s"
  by (simp_all add: report_progress_def set_task_def call_def)

lemma task_upd [simp]:
  "task (report_progress s) = task s"
  "task (set_task f s) = f (task s)"
  "task (call c s) = task s"
  by (simp_all add: report_progress_def set_task_def call_def)










subsection \<open>Overall progress along a run\<close>


definition good :: "TaskProgress \<Rightarrow> bool" where
  "good t = ((status t = COMPLETED \<longrightarrow> progress t = 1) \<and>
             (progress t = 1 \<longrightarrow> status t = COMPLETED \<or> (status t = EXPORTING \<and> export_progress t = 1)))"

definition rising :: "run \<Rightarrow> bool" where
  "rising s = (sorted (map progress (rev (trace s))) \<and>
               (\<forall>t \<in> set (trace s). progress t \<le> progress (task s) \<and> good t))"

lemma rising_report:
  "rising s \<Longrightarrow> good (task s) \<Longrightarrow> rising (report_progress s)"
  by (auto simp: rising_def sorted_append)


lemma rising_other [simp]:
  "rising (call c s) = rising s"
  "rising (s\<lparr>cache_manager := cm\<rparr>) = rising s"
  "rising (s\<lparr>observed := n, events := es\<rparr>) = rising s"
  by (simp_all add: rising_def call_def)













lemma rising_cleanup [simp]: "rising (cleanup e s) = rising s"
  by (simp add: rising_def cleanup_def)

lemma rising_lookup [simp]: "rising (snd (cache_lookup md5 e a u s)) = rising s"
  by (simp add: rising_def)




end
